theory Spec2Isabelle
  imports Main "HOL-Library.Word" "HOL-Library.Signed_Division"
begin

section \<open>Data of \<^verbatim>\<open>include/Profiler.hpp\<close>\<close>

text \<open>
  The header is modelled sequentially: every public operation of \<^verbatim>\<open>Profiler\<close> holds
  \<^verbatim>\<open>m_Mutex\<close> for its whole critical section, so one operation is one step on the state.
  The lock itself is not part of the state.

  All failures of the source are \<^verbatim>\<open>ProfileException\<close>s that differ in their message
  only. \<open>DanglingPointer\<close> stands for the undefined behaviour of reading through
  \<^verbatim>\<open>m_CurrentSession\<close> when it points to no live object.
\<close>

datatype error = ProfileException string | DanglingPointer

datatype outcome = Returned | Threw error

text \<open>
  A \<^verbatim>\<open>double\<close>: a finite value is given by its sign (\<open>True\<close> for negative), a magnitude
  \<open>m\<close> and a binary exponent \<open>e\<close>, and is \<open>m * 2 ^ e\<close>; the other values are the two
  infinities and the NaNs, with their sign.
\<close>

datatype double = Finite bool nat int | Infinity bool | NaN bool

text \<open>
  \<^verbatim>\<open>ProfileResult\<close>. \<^verbatim>\<open>Start\<close> is a \<^verbatim>\<open>std::chrono::duration<double, std::micro>\<close>, given
  by its count; \<open>'t\<close> is \<^verbatim>\<open>std::thread::id\<close>; \<^verbatim>\<open>std::chrono::microseconds\<close> counts in a
  signed 64-bit integer.
\<close>

record 't ProfileResult =
  Name :: string
  Start :: double
  Elapsed :: "64 word"
  ThreadId :: 't

text \<open>\<^verbatim>\<open>ProfilerSession\<close>; its only member \<^verbatim>\<open>Name\<close> is called \<open>SessionName\<close> here.\<close>

record ProfilerSession =
  SessionName :: string

text \<open>
  \<^verbatim>\<open>std::ofstream\<close>: the path of the file it has open (if any), the bytes put into the
  stream and not yet flushed, and whether \<^verbatim>\<open>fail()\<close> holds (failbit or badbit).
\<close>

record ofstream =
  open_file :: "string option"
  buffer :: string
  fail :: bool

text \<open>
  The state: the two data members of \<^verbatim>\<open>Profiler\<close>, the free store holding the
  \<^verbatim>\<open>ProfilerSession\<close> objects made by \<^verbatim>\<open>new\<close> (address and object), and the file
  system (the bytes of each existing file, and which paths can be opened for writing).
  Allocation and the writing of bytes to an open file are taken to succeed.
\<close>

record state =
  m_OutStream :: ofstream
  m_CurrentSession :: "nat option"
  heap :: "(nat \<times> ProfilerSession) list"
  contents :: "string \<Rightarrow> string option"
  writable :: "string \<Rightarrow> bool"

text \<open>
  What the header takes from the platform: the conversion of a \<^verbatim>\<open>steady_clock\<close> duration
  to \<^verbatim>\<open>duration<double, std::micro>\<close>, the output of a \<^verbatim>\<open>std::thread::id\<close>, and the
  output of a \<^verbatim>\<open>double\<close> in the default notation with a given precision, which the header
  never uses.
\<close>

record 't platform =
  to_micro_double :: "64 word \<Rightarrow> double"
  show_tid :: "'t \<Rightarrow> string"
  show_general :: "nat \<Rightarrow> double \<Rightarrow> string"

section \<open>Stream output of integers\<close>

definition digit_char :: "nat \<Rightarrow> char" where
  "digit_char d = char_of (48 + d)"

fun show_nat :: "nat \<Rightarrow> string" where
  "show_nat n = (if n < 10 then [digit_char n] else show_nat (n div 10) @ [digit_char (n mod 10)])"

declare show_nat.simps [simp del]

text \<open>
  \<^verbatim>\<open>operator<<\<close> for a signed integer in the classic locale: decimal digits, with a minus
  sign before a negative value. \<^verbatim>\<open>std::fixed\<close> and the precision do not apply to integers.
\<close>

definition show_int :: "int \<Rightarrow> string" where
  "show_int i = (if i < 0 then CHR ''-'' # show_nat (nat (- i)) else show_nat (nat i))"

section \<open>Stream output of a \<^verbatim>\<open>double\<close> in fixed notation\<close>

text \<open>The quotient of two naturals rounded to the nearest natural, a tie going to the even one.\<close>

definition round_half_even :: "nat \<Rightarrow> nat \<Rightarrow> nat" where
  "round_half_even num den =
     (let q = num div den; r = num mod den in
      if den < 2 * r \<or> (2 * r = den \<and> odd q) then q + 1 else q)"

text \<open>The magnitude \<open>m * 2 ^ e\<close> in units of \<open>10 ^ (- p)\<close>, correctly rounded.\<close>

definition scaled_round :: "nat \<Rightarrow> nat \<Rightarrow> int \<Rightarrow> nat" where
  "scaled_round p m e =
     (if 0 \<le> e then m * 10 ^ p * 2 ^ nat e else round_half_even (m * 10 ^ p) (2 ^ nat (- e)))"

text \<open>The last \<open>p\<close> decimal digits of \<open>k\<close>, with leading zeros.\<close>

fun pad_digits :: "nat \<Rightarrow> nat \<Rightarrow> string" where
  "pad_digits 0 k = []"
| "pad_digits (Suc p) k = pad_digits p (k div 10) @ [digit_char (k mod 10)]"

text \<open>
  \<^verbatim>\<open>operator<<\<close> for a \<^verbatim>\<open>double\<close> on a stream in \<^verbatim>\<open>std::fixed\<close> notation with precision
  \<open>p\<close>, in the classic locale (the conversion \<^verbatim>\<open>%.pf\<close>): the sign, the integral digits,
  and, unless \<open>p\<close> is 0, a point and \<open>p\<close> decimals, the value being rounded to that many
  decimals; an infinity is written \<^verbatim>\<open>inf\<close> and a NaN \<^verbatim>\<open>nan\<close>.
\<close>

definition show_fixed :: "nat \<Rightarrow> double \<Rightarrow> string" where
  "show_fixed p d =
     (case d of
        Finite s m e \<Rightarrow>
          (let n = scaled_round p m e in
           (if s then ''-'' else []) @ show_nat (n div 10 ^ p) @
           (if p = 0 then [] else CHR ''.'' # pad_digits p (n mod 10 ^ p)))
      | Infinity s \<Rightarrow> (if s then ''-inf'' else ''inf'')
      | NaN s \<Rightarrow> (if s then ''-nan'' else ''nan''))"

section \<open>\<^verbatim>\<open>std::stringstream\<close>\<close>

text \<open>
  The text written so far (\<^verbatim>\<open>str()\<close>) and the two format settings the header
  touches: the precision and whether the floating-point notation is \<^verbatim>\<open>std::fixed\<close>.
\<close>

record stringstream =
  written :: string
  precision :: nat
  fixed_notation :: bool

text \<open>A value-initialised stream: empty, precision 6, default notation.\<close>

definition stringstream_ctor :: stringstream where
  "stringstream_ctor = \<lparr>written = [], precision = 6, fixed_notation = False\<rparr>"

text \<open>\<^verbatim>\<open>json << std::setprecision(n)\<close>\<close>

definition setprecision :: "nat \<Rightarrow> stringstream \<Rightarrow> stringstream" where
  "setprecision n ss = ss\<lparr>precision := n\<rparr>"

text \<open>\<^verbatim>\<open>json << std::fixed\<close>\<close>

definition std_fixed :: "stringstream \<Rightarrow> stringstream" where
  "std_fixed ss = ss\<lparr>fixed_notation := True\<rparr>"

text \<open>\<^verbatim>\<open>json << s\<close> for a string or a string literal, and for one character.\<close>

definition put_string :: "string \<Rightarrow> stringstream \<Rightarrow> stringstream" where
  "put_string s ss = ss\<lparr>written := written ss @ s\<rparr>"

definition put_char :: "char \<Rightarrow> stringstream \<Rightarrow> stringstream" where
  "put_char c ss = ss\<lparr>written := written ss @ [c]\<rparr>"

text \<open>\<^verbatim>\<open>json << i\<close> for a signed integer: the format settings play no part.\<close>

definition put_integer :: "int \<Rightarrow> stringstream \<Rightarrow> stringstream" where
  "put_integer i ss = ss\<lparr>written := written ss @ show_int i\<rparr>"

text \<open>\<^verbatim>\<open>json << d\<close> for a \<^verbatim>\<open>double\<close>: the notation and the precision of the stream decide.\<close>

definition put_double :: "'t platform \<Rightarrow> double \<Rightarrow> stringstream \<Rightarrow> stringstream" where
  "put_double pf d ss =
     ss\<lparr>written := written ss @
            (if fixed_notation ss then show_fixed (precision ss) d
             else show_general pf (precision ss) d)\<rparr>"

text \<open>\<^verbatim>\<open>json << id\<close> for a \<^verbatim>\<open>std::thread::id\<close>\<close>

definition put_thread_id :: "'t platform \<Rightarrow> 't \<Rightarrow> stringstream \<Rightarrow> stringstream" where
  "put_thread_id pf t ss = ss\<lparr>written := written ss @ show_tid pf t\<rparr>"

section \<open>\<^verbatim>\<open>std::ofstream\<close>\<close>

definition is_open :: "ofstream \<Rightarrow> bool" where
  "is_open s = (open_file s \<noteq> None)"

text \<open>
  \<^verbatim>\<open>open(path)\<close> with the default mode \<^verbatim>\<open>ios_base::out\<close>: fails (failbit) when the
  stream already has a file or the path cannot be opened; otherwise creates or truncates
  the file and clears the error state.
\<close>

definition ofstream_open :: "string \<Rightarrow> state \<Rightarrow> state" where
  "ofstream_open path st =
     (let s = m_OutStream st in
      if is_open s then st\<lparr>m_OutStream := s\<lparr>fail := True\<rparr>\<rparr>
      else if writable st path
        then st\<lparr>m_OutStream := \<lparr>open_file = Some path, buffer = [], fail = False\<rparr>,
                contents := (contents st)(path \<mapsto> [])\<rparr>
      else st\<lparr>m_OutStream := s\<lparr>fail := True\<rparr>\<rparr>)"

text \<open>\<^verbatim>\<open>m_OutStream << str\<close>: nothing when the stream has failed; an error on a closed stream.\<close>

definition ofstream_put :: "string \<Rightarrow> state \<Rightarrow> state" where
  "ofstream_put str st =
     (let s = m_OutStream st in
      if fail s then st
      else if \<not> is_open s then st\<lparr>m_OutStream := s\<lparr>fail := True\<rparr>\<rparr>
      else st\<lparr>m_OutStream := s\<lparr>buffer := buffer s @ str\<rparr>\<rparr>)"

text \<open>Appending bytes to a file of the file system.\<close>

definition append_file :: "string \<Rightarrow> string \<Rightarrow> (string \<Rightarrow> string option) \<Rightarrow> (string \<Rightarrow> string option)" where
  "append_file path str fs = fs(path \<mapsto> (case fs path of None \<Rightarrow> str | Some old \<Rightarrow> old @ str))"

text \<open>\<^verbatim>\<open>flush()\<close>: nothing when the stream has failed; otherwise the pending bytes reach the file.\<close>

definition ofstream_flush :: "state \<Rightarrow> state" where
  "ofstream_flush st =
     (let s = m_OutStream st in
      if fail s then st
      else (case open_file s of
              None \<Rightarrow> st
            | Some path \<Rightarrow> st\<lparr>m_OutStream := s\<lparr>buffer := []\<rparr>,
                              contents := append_file path (buffer s) (contents st)\<rparr>))"

text \<open>\<^verbatim>\<open>close()\<close>: failbit when no file is open; otherwise writes the pending bytes and closes.\<close>

definition ofstream_close :: "state \<Rightarrow> state" where
  "ofstream_close st =
     (let s = m_OutStream st in
      case open_file s of
        None \<Rightarrow> st\<lparr>m_OutStream := s\<lparr>fail := True\<rparr>\<rparr>
      | Some path \<Rightarrow> st\<lparr>m_OutStream := s\<lparr>open_file := None, buffer := []\<rparr>,
                        contents := append_file path (buffer s) (contents st)\<rparr>)"

section \<open>The free store\<close>

definition fresh :: "(nat \<times> ProfilerSession) list \<Rightarrow> nat" where
  "fresh h = Suc (foldr max (map fst h) 0)"

text \<open>\<^verbatim>\<open>new ProfilerSession{ name }\<close>\<close>

definition new_ProfilerSession :: "string \<Rightarrow> state \<Rightarrow> nat \<times> state" where
  "new_ProfilerSession name st =
     (let p = fresh (heap st) in (p, st\<lparr>heap := (p, \<lparr>SessionName = name\<rparr>) # heap st\<rparr>))"

text \<open>\<^verbatim>\<open>delete p\<close>\<close>

definition delete_ProfilerSession :: "nat \<Rightarrow> state \<Rightarrow> state" where
  "delete_ProfilerSession p st = st\<lparr>heap := filter (\<lambda>(a, s). a \<noteq> p) (heap st)\<rparr>"

section \<open>\<^verbatim>\<open>Profiler\<close>\<close>

text \<open>The private constructor: no session, a default-constructed stream, nothing allocated.\<close>

definition Profiler_ctor :: "(string \<Rightarrow> string option) \<Rightarrow> (string \<Rightarrow> bool) \<Rightarrow> state" where
  "Profiler_ctor fs w =
     \<lparr>m_OutStream = \<lparr>open_file = None, buffer = [], fail = False\<rparr>,
      m_CurrentSession = None, heap = [], contents = fs, writable = w\<rparr>"

definition header :: string where
  \<open>header = ''{"otherData": {},"traceEvents":[{}''\<close>

definition footer :: string where
  "footer = '']}''"

definition WriteHeader :: "state \<Rightarrow> state" where
  "WriteHeader st = ofstream_flush (ofstream_put header st)"

definition WriteFooter :: "state \<Rightarrow> state" where
  "WriteFooter st = ofstream_flush (ofstream_put footer st)"

text \<open>
  \<^verbatim>\<open>BeginSession\<close>. The call \<^verbatim>\<open>EndSessionNoLock_()\<close> that follows the first
  \<^verbatim>\<open>throw\<close> in the source is never reached and has no counterpart here.
\<close>

definition BeginSession :: "string \<Rightarrow> string \<Rightarrow> state \<Rightarrow> outcome \<times> state" where
  "BeginSession name filePath st =
     (case m_CurrentSession st of
        Some p \<Rightarrow>
          (case map_of (heap st) p of
             Some s \<Rightarrow>
               (Threw (ProfileException (''Profiling session already opened: '' @ SessionName s)), st)
           | None \<Rightarrow> (Threw DanglingPointer, st))
      | None \<Rightarrow>
          (let st1 = ofstream_open filePath st in
           if \<not> is_open (m_OutStream st1)
             then (Threw (ProfileException (''Could not open file: '' @ filePath)), st1)
           else (let (p, st2) = new_ProfilerSession name st1;
                     st3 = st2\<lparr>m_CurrentSession := Some p\<rparr>
                 in (Returned, WriteHeader st3))))"

text \<open>The default argument \<^verbatim>\<open>filePath = "result.json"\<close>.\<close>

definition BeginSession_default :: "string \<Rightarrow> state \<Rightarrow> outcome \<times> state" where
  "BeginSession_default name st = BeginSession name ''result.json'' st"

text \<open>
  The text \<^verbatim>\<open>WriteProfile\<close> builds in \<^verbatim>\<open>json\<close> before it takes the lock, one stream
  operation after the other; the result is \<^verbatim>\<open>json.str()\<close>.
\<close>

definition record_json :: "'t platform \<Rightarrow> 't ProfileResult \<Rightarrow> string" where
  \<open>record_json pf result =
     (let json = stringstream_ctor;
          json = std_fixed (setprecision 3 json);
          json = put_string '',{'' json;
          json = put_string ''"cat":"function",'' json;
          json = put_char CHR '','' (put_integer (sint (Elapsed result)) (put_string ''"dur":'' json));
          json = put_string ''",'' (put_string (Name result) (put_string ''"name":"'' json));
          json = put_string ''"ph":"X",'' json;
          json = put_string ''"pid":0,'' json;
          json = put_string '','' (put_thread_id pf (ThreadId result) (put_string ''"tid":'' json));
          json = put_double pf (Start result) (put_string ''"ts":'' json);
          json = put_string ''}'' json
      in written json)\<close>

definition WriteProfile :: "'t platform \<Rightarrow> 't ProfileResult \<Rightarrow> state \<Rightarrow> outcome \<times> state" where
  "WriteProfile pf result st =
     (let json = record_json pf result in
      case m_CurrentSession st of
        None \<Rightarrow> (Threw (ProfileException ''No opened profiling session!''), st)
      | Some p \<Rightarrow> (Returned, ofstream_flush (ofstream_put json st)))"

text \<open>\<^verbatim>\<open>EndSessionNoLock_\<close>\<close>

definition EndSessionNoLock :: "state \<Rightarrow> state" where
  "EndSessionNoLock st =
     (case m_CurrentSession st of
        None \<Rightarrow> st
      | Some p \<Rightarrow>
          (let st1 = WriteFooter st;
               st2 = ofstream_close st1;
               st3 = delete_ProfilerSession p st2
           in st3\<lparr>m_CurrentSession := None\<rparr>))"

definition EndSession :: "state \<Rightarrow> outcome \<times> state" where
  "EndSession st = (Returned, EndSessionNoLock st)"

section \<open>\<^verbatim>\<open>ProfilerScope\<close>\<close>

text \<open>
  A \<^verbatim>\<open>steady_clock::time_point\<close> is a signed 64-bit count of nanoseconds since the clock's
  epoch (the representation of libstdc++, libc++ and the MSVC library).
\<close>

record ProfilerScope =
  m_Name :: string
  m_Start :: "64 word"

text \<open>The constructor; \<open>now\<close> is the reading of \<^verbatim>\<open>steady_clock::now()\<close>.\<close>

definition ProfilerScope_ctor :: "string \<Rightarrow> 64 word \<Rightarrow> ProfilerScope" where
  "ProfilerScope_ctor name now = \<lparr>m_Name = name, m_Start = now\<rparr>"

text \<open>
  \<^verbatim>\<open>time_point_cast<microseconds>(t).time_since_epoch()\<close>: a \<^verbatim>\<open>duration_cast\<close> from
  nanoseconds, an integer division by 1000 that truncates towards zero.
\<close>

definition time_point_cast_us :: "64 word \<Rightarrow> 64 word" where
  "time_point_cast_us t = word_of_int (sint t sdiv 1000)"

text \<open>
  The \<^verbatim>\<open>ProfileResult\<close> that \<^verbatim>\<open>Stop\<close> builds; \<open>endTime\<close> is its reading of the clock
  and \<open>tid\<close> the value of \<^verbatim>\<open>std::this_thread::get_id()\<close>.
\<close>

definition Stop_result ::
  "'t platform \<Rightarrow> ProfilerScope \<Rightarrow> 64 word \<Rightarrow> 't \<Rightarrow> 't ProfileResult" where
  "Stop_result pf scope endTime tid =
     (let highResStart = to_micro_double pf (m_Start scope);
          elapsed = time_point_cast_us endTime - time_point_cast_us (m_Start scope)
      in \<lparr>Name = m_Name scope, Start = highResStart, Elapsed = elapsed, ThreadId = tid\<rparr>)"

definition Stop ::
  "'t platform \<Rightarrow> ProfilerScope \<Rightarrow> 64 word \<Rightarrow> 't \<Rightarrow> state \<Rightarrow> outcome \<times> state" where
  "Stop pf scope endTime tid st = WriteProfile pf (Stop_result pf scope endTime tid) st"

section \<open>Sequences of operations\<close>

datatype 't op = Begin string string | Write "'t ProfileResult" | End

fun exec :: "'t platform \<Rightarrow> 't op \<Rightarrow> state \<Rightarrow> outcome \<times> state" where
  "exec pf (Begin name filePath) st = BeginSession name filePath st"
| "exec pf (Write result) st = WriteProfile pf result st"
| "exec pf End st = EndSession st"

text \<open>
  The caller goes on after an operation that threw: the outcomes are collected and the
  state is handed to the next operation.
\<close>

fun exec_all :: "'t platform \<Rightarrow> 't op list \<Rightarrow> state \<Rightarrow> outcome list \<times> state" where
  "exec_all pf [] st = ([], st)"
| "exec_all pf (x # xs) st =
     (let (res, st1) = exec pf x st;
          (ress, st2) = exec_all pf xs st1
      in (res # ress, st2))"

definition run :: "'t platform \<Rightarrow> 't op list \<Rightarrow> state \<Rightarrow> state" where
  "run pf ops st = snd (exec_all pf ops st)"

section \<open>Notions the properties are stated with\<close>

text \<open>The sessions that exist: the live \<^verbatim>\<open>ProfilerSession\<close> objects.\<close>

definition open_sessions :: "state \<Rightarrow> nat" where
  "open_sessions st = length (heap st)"

text \<open>The bytes of the file the stream has open.\<close>

definition sink :: "state \<Rightarrow> string option" where
  "sink st = (case open_file (m_OutStream st) of None \<Rightarrow> None | Some path \<Rightarrow> contents st path)"

text \<open>
  The states the operations keep to. Nothing is pending in the stream between two
  operations. With no session, nothing is allocated and the stream is closed. With a
  session, \<^verbatim>\<open>m_CurrentSession\<close> points to the only allocated object, and the stream is
  open on an existing file and has not failed.
\<close>

definition session_inv :: "state \<Rightarrow> bool" where
  "session_inv st =
     (let s = m_OutStream st in
      buffer s = [] \<and>
      (case m_CurrentSession st of
         None \<Rightarrow> heap st = [] \<and> open_file s = None
       | Some p \<Rightarrow> map fst (heap st) = [p] \<and> \<not> fail s \<and> sink st \<noteq> None))"

text \<open>A session is open and writes to the file \<open>path\<close>, which holds \<open>bytes\<close>.\<close>

definition open_on :: "string \<Rightarrow> string \<Rightarrow> state \<Rightarrow> bool" where
  "open_on path bytes st =
     (session_inv st \<and> m_CurrentSession st \<noteq> None \<and>
      open_file (m_OutStream st) = Some path \<and> contents st path = Some bytes)"

definition is_digit :: "char \<Rightarrow> bool" where
  "is_digit c = (48 \<le> (of_char c :: nat) \<and> (of_char c :: nat) \<le> 57)"

text \<open>Reading a decimal numeral back.\<close>

definition digit_val :: "char \<Rightarrow> nat" where
  "digit_val c = of_char c - 48"

definition read_nat :: "string \<Rightarrow> nat" where
  "read_nat cs = foldl (\<lambda>acc c. 10 * acc + digit_val c) 0 cs"

definition read_int :: "string \<Rightarrow> int" where
  "read_int cs = (case cs of
                    [] \<Rightarrow> 0
                  | c # rest \<Rightarrow> if c = CHR ''-'' then - int (read_nat rest) else int (read_nat cs))"

text \<open>
  The record as the format description words it, with \<^verbatim>\<open>dur\<close> in fixed-point notation
  with three decimals: an integral count of microseconds has the decimals \<^verbatim>\<open>000\<close>.
\<close>

definition fixed3_of_int :: "int \<Rightarrow> string" where
  "fixed3_of_int i = show_int i @ ''.000''"

definition record_json_fixed3_dur :: "'t platform \<Rightarrow> 't ProfileResult \<Rightarrow> string" where
  \<open>record_json_fixed3_dur pf result =
     '',{"cat":"function","dur":'' @ fixed3_of_int (sint (Elapsed result)) @
     '',"name":"'' @ Name result @
     ''","ph":"X","pid":0,"tid":'' @ show_tid pf (ThreadId result) @
     '',"ts":'' @ show_fixed 3 (Start result) @ ''}''\<close>

text \<open>
  The document as the format description gives it: the header, those records, the footer.
  \<open>sep\<close> is what stands between the parts: nothing in the description's wording, a line
  break in its listing.
\<close>

definition document_sec6 :: "string \<Rightarrow> 't platform \<Rightarrow> 't ProfileResult list \<Rightarrow> string" where
  \<open>document_sec6 sep pf rs =
     ''{"otherData": {},"traceEvents":[{}'' @
     concat (map (\<lambda>r. sep @ record_json_fixed3_dur pf r) rs) @
     sep @ '']}''\<close>

section \<open>A platform and a file system to evaluate the operations on\<close>

text \<open>
  The example platform has IEEE 754 binary64 arithmetic, rounding to nearest with ties to
  even. \<open>binary64 s num den\<close> is the \<^verbatim>\<open>double\<close> nearest to the quotient \<open>num / den\<close>
  with sign \<open>s\<close>, in the range of the normal numbers.
\<close>

fun bit_length :: "nat \<Rightarrow> nat" where
  "bit_length n = (if n = 0 then 0 else Suc (bit_length (n div 2)))"

declare bit_length.simps [simp del]

definition binary64 :: "bool \<Rightarrow> nat \<Rightarrow> nat \<Rightarrow> double" where
  "binary64 s num den =
     (if num = 0 then Finite s 0 0
      else
        (let e0 = int (bit_length num) - int (bit_length den) - 53;
             e = (if 2 ^ 53 * (den * 2 ^ nat e0) \<le> num * 2 ^ nat (- e0) then e0 + 1 else e0);
             m = round_half_even (num * 2 ^ nat (- e)) (den * 2 ^ nat e)
         in if m = 2 ^ 53 then Finite s (2 ^ 52) (e + 1) else Finite s m e))"

text \<open>
  The conversion of a count of nanoseconds to a \<^verbatim>\<open>double\<close> count of microseconds: the
  integer becomes a \<^verbatim>\<open>double\<close>, which is divided by 1000.
\<close>

definition micros_of_nanos :: "int \<Rightarrow> double" where
  "micros_of_nanos k =
     (case binary64 (k < 0) (nat \<bar>k\<bar>) 1 of
        Finite s m e \<Rightarrow> binary64 s (m * 2 ^ nat e) (1000 * 2 ^ nat (- e))
      | d \<Rightarrow> d)"

text \<open>
  A thread identifier is a number, written in decimal. The default notation for a
  \<^verbatim>\<open>double\<close>, which no operation of the header reaches, is left as the fixed one.
\<close>

definition example_platform :: "nat platform" where
  "example_platform =
     \<lparr>to_micro_double = (\<lambda>t. micros_of_nanos (sint t)),
      show_tid = show_nat,
      show_general = show_fixed\<rparr>"

definition example_idle :: state where
  "example_idle = Profiler_ctor Map.empty (\<lambda>path. path = ''out.json'')"

definition example_open :: state where
  "example_open = snd (BeginSession ''S'' ''out.json'' example_idle)"

text \<open>Two results: 5000 microseconds from 1.5, and 12 microseconds from 5003.25.\<close>

definition example_result :: "nat ProfileResult" where
  "example_result = \<lparr>Name = ''work'', Start = Finite False 3 (- 1), Elapsed = 5000, ThreadId = 7\<rparr>"

definition example_result2 :: "nat ProfileResult" where
  "example_result2 =
     \<lparr>Name = ''idle'', Start = Finite False 20013 (- 2), Elapsed = 12, ThreadId = 8\<rparr>"

section \<open>The session invariant\<close>

lemmas stream_defs = ofstream_open_def ofstream_put_def ofstream_flush_def ofstream_close_def
  is_open_def append_file_def

lemma Profiler_ctor_inv: "session_inv (Profiler_ctor fs w)"
  by (simp add: session_inv_def Profiler_ctor_def)

lemma BeginSession_inv: "session_inv st \<Longrightarrow> session_inv (snd (BeginSession name filePath st))"
  by (auto simp: session_inv_def BeginSession_def WriteHeader_def new_ProfilerSession_def
      stream_defs sink_def Let_def split: option.splits)

lemma WriteProfile_inv: "session_inv st \<Longrightarrow> session_inv (snd (WriteProfile pf r st))"
  by (auto simp: session_inv_def WriteProfile_def stream_defs sink_def Let_def split: option.splits)

lemma EndSession_inv: "session_inv st \<Longrightarrow> session_inv (snd (EndSession st))"
  by (auto simp: session_inv_def EndSession_def EndSessionNoLock_def WriteFooter_def
      delete_ProfilerSession_def stream_defs sink_def Let_def split: option.splits)

lemma exec_inv: "session_inv st \<Longrightarrow> session_inv (snd (exec pf x st))"
  by (cases x) (simp_all add: BeginSession_inv WriteProfile_inv EndSession_inv)

lemma exec_all_inv: "session_inv st \<Longrightarrow> session_inv (snd (exec_all pf xs st))"
proof (induction xs arbitrary: st)
  case Nil
  then show ?case by simp
next
  case (Cons x xs)
  from Cons.prems have "session_inv (snd (exec pf x st))" by (rule exec_inv)
  then have "session_inv (snd (exec_all pf xs (snd (exec pf x st))))" by (rule Cons.IH)
  then show ?case by (simp add: split_beta)
qed

lemma inv_open_sessions: "session_inv st \<Longrightarrow> open_sessions st \<le> 1"
  by (auto simp: session_inv_def open_sessions_def Let_def split: option.splits
      dest: arg_cong [where f = length])

lemma inv_open_sessions_eq:
  "session_inv st \<Longrightarrow> open_sessions st = (if m_CurrentSession st = None then 0 else 1)"
  by (auto simp: session_inv_def open_sessions_def Let_def split: option.splits
      dest: arg_cong [where f = length])

section \<open>The example states\<close>

lemma example_idle_inv: "session_inv example_idle"
  by (simp add: example_idle_def Profiler_ctor_inv)

lemma example_idle_session: "m_CurrentSession example_idle = None"
  by (simp add: example_idle_def Profiler_ctor_def)

lemma example_open_eq:
  "example_open =
     \<lparr>m_OutStream = \<lparr>open_file = Some ''out.json'', buffer = [], fail = False\<rparr>,
      m_CurrentSession = Some 1,
      heap = [(1, \<lparr>SessionName = ''S''\<rparr>)],
      contents = [''out.json'' \<mapsto> header],
      writable = (\<lambda>path. path = ''out.json'')\<rparr>"
  by (simp add: example_open_def example_idle_def Profiler_ctor_def BeginSession_def
      WriteHeader_def new_ProfilerSession_def fresh_def stream_defs Let_def)

lemma example_open_inv: "session_inv example_open"
  unfolding example_open_def using example_idle_inv by (rule BeginSession_inv)

section \<open>\<^verbatim>\<open>BeginSession\<close> while a session is open\<close>

text \<open>
  C1. In every state with an open session, \<^verbatim>\<open>BeginSession\<close>, whatever the name and the
  destination, throws the \<^verbatim>\<open>ProfileException\<close> "Profiling session already opened: "
  followed by the name of the existing session, and the state after the call is the state
  before it: the session is still open, so is its stream, and nothing else has changed.
\<close>

theorem BeginSession_while_open:
  "session_inv st \<Longrightarrow> m_CurrentSession st = Some p \<Longrightarrow>
     \<exists>s. heap st = [(p, s)] \<and>
         BeginSession name filePath st =
           (Threw (ProfileException (''Profiling session already opened: '' @ SessionName s)), st)"
  by (cases "heap st") (auto simp: session_inv_def BeginSession_def Let_def)

theorem BeginSession_while_open_witness:
  "session_inv example_open \<and> m_CurrentSession example_open = Some 1 \<and>
   BeginSession ''T'' ''other.json'' example_open =
     (Threw (ProfileException ''Profiling session already opened: S''), example_open)"
  using BeginSession_while_open [of example_open 1 "''T''" "''other.json''"] example_open_inv
  by (auto simp: example_open_eq)

text \<open>
  C10. When \<^verbatim>\<open>m_CurrentSession\<close> is not null, \<^verbatim>\<open>BeginSession\<close> throws before it reaches
  \<^verbatim>\<open>m_OutStream.open\<close>: it does not return, no file is created or truncated (the file
  system is the same), and the stream is what it was, open on the file of the existing
  session.
\<close>

theorem second_BeginSession_opens_nothing:
  "m_CurrentSession st = Some p \<Longrightarrow>
     fst (BeginSession name filePath st) \<noteq> Returned \<and>
     contents (snd (BeginSession name filePath st)) = contents st \<and>
     m_OutStream (snd (BeginSession name filePath st)) = m_OutStream st"
  by (simp add: BeginSession_def split: option.splits)

theorem second_BeginSession_opens_nothing_witness:
  "m_CurrentSession example_open = Some 1 \<and>
   fst (BeginSession ''T'' ''out.json'' example_open) \<noteq> Returned \<and>
   contents (snd (BeginSession ''T'' ''out.json'' example_open)) ''out.json'' = Some header \<and>
   contents (snd (BeginSession ''T'' ''out.json'' example_open)) ''other.json'' = None \<and>
   open_file (m_OutStream (snd (BeginSession ''T'' ''other.json'' example_open))) = Some ''out.json''"
  using second_BeginSession_opens_nothing [of example_open 1 "''T''" "''out.json''"]
    second_BeginSession_opens_nothing [of example_open 1 "''T''" "''other.json''"]
  by (simp add: example_open_eq)

section \<open>At most one session\<close>

text \<open>
  C2. From a state that satisfies the session invariant (no or one live session), every
  operation and every sequence of operations, whether they throw or not, ends in a state
  that satisfies it again, with at most one live \<^verbatim>\<open>ProfilerSession\<close>.
\<close>

theorem at_most_one_session:
  "session_inv st \<Longrightarrow>
     session_inv (snd (exec pf x st)) \<and> open_sessions (snd (exec pf x st)) \<le> 1 \<and>
     session_inv (run pf xs st) \<and> open_sessions (run pf xs st) \<le> 1"
  unfolding run_def
  by (intro conjI exec_inv exec_all_inv inv_open_sessions)

theorem at_most_one_session_witness:
  "session_inv example_open \<and>
   open_sessions (snd (exec example_platform (Begin ''T'' ''out.json'') example_open)) \<le> 1 \<and>
   open_sessions (run example_platform
      [Begin ''T'' ''out.json'', Write example_result, End, End, Begin ''U'' ''out.json'',
       Begin ''V'' ''out.json''] example_open) \<le> 1"
  using at_most_one_session [OF example_open_inv, of example_platform "Begin ''T'' ''out.json''"
      "[Begin ''T'' ''out.json'', Write example_result, End, End, Begin ''U'' ''out.json'',
       Begin ''V'' ''out.json'']"] example_open_inv
  by simp

section \<open>The serialized record\<close>

lemma digit_char_numerals:
  "digit_char 0 = CHR ''0''" "digit_char 1 = CHR ''1''" "digit_char 2 = CHR ''2''"
  "digit_char 3 = CHR ''3''" "digit_char 4 = CHR ''4''" "digit_char 5 = CHR ''5''"
  "digit_char 6 = CHR ''6''" "digit_char 7 = CHR ''7''" "digit_char 8 = CHR ''8''"
  "digit_char 9 = CHR ''9''" "digit_char (Suc 0) = CHR ''1''"
  by code_simp+

lemma of_char_digit_char: "d < 10 \<Longrightarrow> of_char (digit_char d) = 48 + d"
  by (simp add: digit_char_def)

lemma digit_val_digit_char: "d < 10 \<Longrightarrow> digit_val (digit_char d) = d"
  by (simp add: digit_val_def of_char_digit_char)

lemma is_digit_digit_char: "d < 10 \<Longrightarrow> is_digit (digit_char d)"
  by (simp add: is_digit_def of_char_digit_char)

lemma read_nat_snoc: "read_nat (cs @ [c]) = 10 * read_nat cs + digit_val c"
  by (simp add: read_nat_def)

lemma read_nat_show_nat: "read_nat (show_nat n) = n"
proof (induction n rule: show_nat.induct)
  case (1 n)
  show ?case
  proof (cases "n < 10")
    case True
    then show ?thesis
      by (subst show_nat.simps) (simp add: read_nat_def digit_val_digit_char)
  next
    case False
    with 1 have "read_nat (show_nat (n div 10)) = n div 10" by simp
    with False show ?thesis
      by (subst show_nat.simps) (simp add: read_nat_snoc digit_val_digit_char)
  qed
qed

lemma show_nat_digits: "show_nat n \<noteq> [] \<and> list_all is_digit (show_nat n)"
proof (induction n rule: show_nat.induct)
  case (1 n)
  show ?case
  proof (cases "n < 10")
    case True
    then show ?thesis
      by (subst (1 2) show_nat.simps) (simp add: is_digit_digit_char)
  next
    case False
    with 1 have "list_all is_digit (show_nat (n div 10))" by simp
    with False show ?thesis
      by (subst (1 2) show_nat.simps) (simp add: is_digit_digit_char)
  qed
qed

lemma read_int_show_int: "read_int (show_int i) = i"
proof (cases "i < 0")
  case True
  then show ?thesis by (simp add: read_int_def show_int_def read_nat_show_nat)
next
  case False
  obtain c cs where sh: "show_nat (nat i) = c # cs"
    using show_nat_digits [of "nat i"] by (cases "show_nat (nat i)") auto
  with show_nat_digits [of "nat i"] have "is_digit c" by simp
  then have "c \<noteq> CHR ''-''" by (auto simp: is_digit_def)
  with False sh read_nat_show_nat [of "nat i"] show ?thesis
    by (simp add: read_int_def show_int_def)
qed

lemma show_int_no_point: "CHR ''.'' \<notin> set (show_int i)"
proof -
  have "\<not> is_digit CHR ''.''" by (simp add: is_digit_def)
  moreover have "CHR ''.'' \<noteq> CHR ''-''" by simp
  ultimately show ?thesis
    using show_nat_digits [of "nat i"] show_nat_digits [of "nat (- i)"]
    by (auto simp: show_int_def list_all_iff)
qed


text \<open>The stream operations of \<^verbatim>\<open>WriteProfile\<close> put together.\<close>

lemma record_json_bytes:
  \<open>record_json pf r =
     '',{"cat":"function","dur":'' @ show_int (sint (Elapsed r)) @
     '',"name":"'' @ Name r @
     ''","ph":"X","pid":0,"tid":'' @ show_tid pf (ThreadId r) @
     '',"ts":'' @ show_fixed 3 (Start r) @ ''}''\<close>
  by (simp add: record_json_def stringstream_ctor_def setprecision_def std_fixed_def
      put_string_def put_char_def put_integer_def put_double_def put_thread_id_def)

lemma pad_digits_3:
  "pad_digits 3 k = [digit_char (k div 100 mod 10), digit_char (k div 10 mod 10), digit_char (k mod 10)]"
proof -
  have "k div 10 div 10 = k div 100" by (simp add: div_mult2_eq [symmetric])
  then show ?thesis by (simp add: numeral_3_eq_3)
qed

lemma last_digits_1000:
  fixes n :: nat
  shows "n mod 1000 div 100 mod 10 = n div 100 mod 10"
    and "n mod 1000 div 10 mod 10 = n div 10 mod 10"
    and "n mod 1000 mod 10 = n mod 10"
proof -
  have "n mod 1000 = n mod (100 * 10)" by simp
  also have "\<dots> = 100 * (n div 100 mod 10) + n mod 100" by (rule mod_mult2_eq)
  finally have h: "n mod 1000 = 100 * (n div 100 mod 10) + n mod 100" .
  show "n mod 1000 div 100 mod 10 = n div 100 mod 10"
    by (simp add: h)
  have "n mod 1000 div 10 = n div 10 mod 100"
    using mod_mult2_eq [of n 10 100] by simp
  then show "n mod 1000 div 10 mod 10 = n div 10 mod 10"
    by (simp add: mod_mod_cancel)
  show "n mod 1000 mod 10 = n mod 10"
    by (simp add: mod_mod_cancel)
qed

lemma show_fixed_3_Finite:
  "show_fixed 3 (Finite s m e) =
     (if s then ''-'' else []) @ show_nat (scaled_round 3 m e div 1000) @ ''.'' @
     pad_digits 3 (scaled_round 3 m e mod 1000)"
  by (simp add: show_fixed_def Let_def)

lemma round_half_even_near:
  assumes "0 < den"
  shows "2 * \<bar>int num - int (round_half_even num den) * int den\<bar> \<le> int den"
proof -
  define q r where "q = num div den" and "r = num mod den"
  have n: "int num = int q * int den + int r"
    unfolding q_def r_def by (metis div_mult_mod_eq of_nat_add of_nat_mult)
  have rl: "r < den" unfolding r_def using assms by simp
  show ?thesis
  proof (cases "den < 2 * r \<or> (2 * r = den \<and> odd q)")
    case True
    then have "round_half_even num den = q + 1"
      by (simp add: round_half_even_def Let_def q_def r_def)
    moreover from True have "den \<le> 2 * r" by auto
    ultimately show ?thesis using n rl by (simp add: algebra_simps)
  next
    case False
    then have "round_half_even num den = q"
      by (simp add: round_half_even_def Let_def q_def r_def)
    moreover from False have "2 * r \<le> den" by auto
    ultimately show ?thesis using n by (simp add: algebra_simps)
  qed
qed

lemma scaled_round_near:
  "2 * \<bar>int m * 1000 * 2 ^ nat e - int (scaled_round 3 m e) * 2 ^ nat (- e)\<bar> \<le> 2 ^ nat (- e)"
proof (cases "0 \<le> e")
  case True
  then show ?thesis by (simp add: scaled_round_def)
next
  case False
  then have "nat e = 0" by simp
  with False round_half_even_near [of "2 ^ nat (- e)" "m * 1000"] show ?thesis
    by (simp add: scaled_round_def)
qed


lemma example_numerals:
  "show_int 5000 = ''5000''" "show_int 12 = ''12''" "show_nat 7 = ''7''" "show_nat 8 = ''8''"
  by (simp_all add: show_int_def show_nat.simps digit_char_numerals)

lemma scaled_round_examples:
  "scaled_round 3 3 (- 1) = 1500" "scaled_round 3 20013 (- 2) = 5003250"
  by (simp_all add: scaled_round_def round_half_even_def Let_def)

lemma show_fixed_examples:
  "show_fixed 3 (Finite False 3 (- 1)) = ''1.500''"
  "show_fixed 3 (Finite False 20013 (- 2)) = ''5003.250''"
  "show_fixed 3 (Infinity False) = ''inf''"
  by (simp_all add: show_fixed_3_Finite scaled_round_examples pad_digits_3 show_nat.simps
      digit_char_numerals show_fixed_def)

lemma record_json_example:
  \<open>record_json example_platform example_result =
     '',{"cat":"function","dur":5000,"name":"work","ph":"X","pid":0,"tid":7,"ts":1.500}''\<close>
  by (simp add: record_json_bytes example_platform_def example_result_def example_numerals
      show_fixed_examples)

lemma record_json_example2:
  \<open>record_json example_platform example_result2 =
     '',{"cat":"function","dur":12,"name":"idle","ph":"X","pid":0,"tid":8,"ts":5003.250}''\<close>
  by (simp add: record_json_bytes example_platform_def example_result2_def example_numerals
      show_fixed_examples)

text \<open>
  C5, as the claim states it, fails. \<^verbatim>\<open>Elapsed.count()\<close> is an integer, which the stream
  writes without a decimal point, whatever the floating-point notation is: for 5000
  microseconds the record has \<^verbatim>\<open>"dur":5000\<close>, not \<^verbatim>\<open>"dur":5000.000\<close>. And a start
  that is not finite has no decimals: for an infinite one the record has \<^verbatim>\<open>"ts":inf\<close>.
\<close>

theorem record_json_dur_counterexample:
  \<open>record_json example_platform example_result =
     '',{"cat":"function","dur":5000,"name":"work","ph":"X","pid":0,"tid":7,"ts":1.500}'' \<and>
   record_json_fixed3_dur example_platform example_result =
     '',{"cat":"function","dur":5000.000,"name":"work","ph":"X","pid":0,"tid":7,"ts":1.500}'' \<and>
   record_json example_platform example_result \<noteq>
     record_json_fixed3_dur example_platform example_result \<and>
   record_json example_platform (example_result\<lparr>Start := Infinity False\<rparr>) =
     '',{"cat":"function","dur":5000,"name":"work","ph":"X","pid":0,"tid":7,"ts":inf}''\<close>
  by (simp add: record_json_def stringstream_ctor_def setprecision_def std_fixed_def
      put_string_def put_char_def put_integer_def put_double_def put_thread_id_def
      record_json_fixed3_dur_def fixed3_of_int_def example_platform_def example_result_def
      example_numerals show_fixed_examples)

text \<open>
  C5, amended. The record of a result is a comma, then one object with the fields
  \<^verbatim>\<open>cat\<close> (the constant \<^verbatim>\<open>"function"\<close>), \<^verbatim>\<open>dur\<close>, \<^verbatim>\<open>name\<close> (the name as it is, between
  quotes, not escaped), \<^verbatim>\<open>ph\<close> (the constant \<^verbatim>\<open>"X"\<close>), \<^verbatim>\<open>pid\<close> (the constant 0),
  \<^verbatim>\<open>tid\<close> (the thread identifier as the platform prints it) and \<^verbatim>\<open>ts\<close>, in this order.
  \<^verbatim>\<open>dur\<close> is the elapsed count of microseconds as a decimal integer: it reads back as that
  count and has no decimal point. \<^verbatim>\<open>ts\<close> is the start in fixed notation with precision 3;
  for a finite start that is the sign, the integral digits, a point and exactly three
  decimals, the number of thousandths written being a nearest one to the start.
\<close>

theorem record_json_layout:
  \<open>record_json pf r =
     '',{"cat":"function","dur":'' @ show_int (sint (Elapsed r)) @
     '',"name":"'' @ Name r @
     ''","ph":"X","pid":0,"tid":'' @ show_tid pf (ThreadId r) @
     '',"ts":'' @ show_fixed 3 (Start r) @ ''}'' \<and>
   read_int (show_int (sint (Elapsed r))) = sint (Elapsed r) \<and>
   CHR ''.'' \<notin> set (show_int (sint (Elapsed r))) \<and>
   (\<forall>s m e. Start r = Finite s m e \<longrightarrow>
      (\<exists>n. show_fixed 3 (Start r) =
             (if s then ''-'' else []) @ show_nat (n div 1000) @ ''.'' @
             [digit_char (n div 100 mod 10), digit_char (n div 10 mod 10),
              digit_char (n mod 10)] \<and>
           2 * \<bar>int m * 1000 * 2 ^ nat e - int n * 2 ^ nat (- e)\<bar> \<le> 2 ^ nat (- e)))\<close>
proof -
  have ts: "\<exists>n. show_fixed 3 (Finite s m e) =
             (if s then ''-'' else []) @ show_nat (n div 1000) @ ''.'' @
             [digit_char (n div 100 mod 10), digit_char (n div 10 mod 10),
              digit_char (n mod 10)] \<and>
           2 * \<bar>int m * 1000 * 2 ^ nat e - int n * 2 ^ nat (- e)\<bar> \<le> 2 ^ nat (- e)"
    for s m e
  proof -
    define n where "n = scaled_round 3 m e"
    show ?thesis
      using scaled_round_near [of m e]
      by (intro exI [of _ n]) (simp add: show_fixed_3_Finite pad_digits_3 last_digits_1000 n_def [symmetric])
  qed
  show ?thesis
    using ts by (simp add: record_json_bytes read_int_show_int show_int_no_point)
qed

theorem record_json_layout_witness:
  \<open>Start example_result = Finite False 3 (- 1) \<and>
   record_json example_platform example_result =
     '',{"cat":"function","dur":5000,"name":"work","ph":"X","pid":0,"tid":7,"ts":1.500}'' \<and>
   (\<exists>n. show_fixed 3 (Start example_result) =
          show_nat (n div 1000) @ ''.'' @
          [digit_char (n div 100 mod 10), digit_char (n div 10 mod 10), digit_char (n mod 10)] \<and>
        2 * \<bar>3 * 1000 - int n * 2\<bar> \<le> (2::int))\<close>
proof -
  have st: "Start example_result = Finite False 3 (- 1)"
    by (simp add: example_result_def)
  from record_json_layout [of example_platform example_result] st
  have "\<exists>n. show_fixed 3 (Start example_result) =
             (if False then ''-'' else []) @ show_nat (n div 1000) @ ''.'' @
             [digit_char (n div 100 mod 10), digit_char (n div 10 mod 10),
              digit_char (n mod 10)] \<and>
           2 * \<bar>int 3 * 1000 * 2 ^ nat (- 1) - int n * 2 ^ nat (- (- 1))\<bar> \<le> 2 ^ nat (- (- 1))"
    by blast
  then have "\<exists>n. show_fixed 3 (Start example_result) =
          show_nat (n div 1000) @ ''.'' @
          [digit_char (n div 100 mod 10), digit_char (n div 10 mod 10), digit_char (n mod 10)] \<and>
        2 * \<bar>3 * 1000 - int n * 2\<bar> \<le> (2::int)"
    by simp
  with st show ?thesis by (simp add: record_json_example)
qed

section \<open>\<^verbatim>\<open>WriteProfile\<close>\<close>

text \<open>
  C3. \<^verbatim>\<open>WriteProfile\<close> throws the \<^verbatim>\<open>ProfileException\<close> "No opened profiling session!"
  if and only if no session is open, and changes nothing then. With a session open it
  returns, and its only effect is that the file of the stream has grown by the bytes of
  one record: the comma and the object with the fields of the result.
\<close>

theorem WriteProfile_gate:
  \<open>session_inv st \<Longrightarrow>
     (fst (WriteProfile pf r st) = Threw (ProfileException ''No opened profiling session!'')
        \<longleftrightarrow> m_CurrentSession st = None) \<and>
     (m_CurrentSession st = None \<longrightarrow> snd (WriteProfile pf r st) = st) \<and>
     (m_CurrentSession st \<noteq> None \<longrightarrow>
        (\<exists>path old. open_file (m_OutStream st) = Some path \<and> contents st path = Some old \<and>
           WriteProfile pf r st =
             (Returned,
              st\<lparr>contents := (contents st)(path \<mapsto> old @
                 '',{"cat":"function","dur":'' @ show_int (sint (Elapsed r)) @
                 '',"name":"'' @ Name r @
                 ''","ph":"X","pid":0,"tid":'' @ show_tid pf (ThreadId r) @
                 '',"ts":'' @ show_fixed 3 (Start r) @ ''}'')\<rparr>)))\<close>
  by (auto simp: session_inv_def WriteProfile_def stream_defs sink_def Let_def record_json_bytes
      split: option.splits)

theorem WriteProfile_gate_witness:
  \<open>session_inv example_idle \<and> m_CurrentSession example_idle = None \<and>
   WriteProfile example_platform example_result example_idle =
     (Threw (ProfileException ''No opened profiling session!''), example_idle) \<and>
   session_inv example_open \<and> m_CurrentSession example_open \<noteq> None \<and>
   contents example_open ''out.json'' = Some ''{"otherData": {},"traceEvents":[{}'' \<and>
   WriteProfile example_platform example_result example_open =
     (Returned, example_open\<lparr>contents :=
        [''out.json'' \<mapsto>
           ''{"otherData": {},"traceEvents":[{}'' @
           '',{"cat":"function","dur":5000,"name":"work","ph":"X","pid":0,"tid":7,"ts":1.500}'']\<rparr>)\<close>
  using WriteProfile_gate [OF example_idle_inv, of example_platform example_result]
    WriteProfile_gate [OF example_open_inv, of example_platform example_result]
    example_idle_inv example_open_inv example_idle_session
  by (auto simp: example_open_eq prod_eq_iff header_def example_platform_def example_result_def
      example_numerals show_fixed_examples)

section \<open>\<^verbatim>\<open>EndSession\<close>\<close>

text \<open>
  C6. \<^verbatim>\<open>EndSession\<close> always returns. With no session open it changes nothing. With a
  session open it appends the two bytes of the footer to the file, closes the stream,
  deletes the session object and sets \<^verbatim>\<open>m_CurrentSession\<close> to null.
\<close>

theorem EndSession_cases:
  "session_inv st \<Longrightarrow>
     fst (EndSession st) = Returned \<and>
     (m_CurrentSession st = None \<longrightarrow> snd (EndSession st) = st) \<and>
     (m_CurrentSession st \<noteq> None \<longrightarrow>
        (\<exists>path old. open_file (m_OutStream st) = Some path \<and> contents st path = Some old \<and>
           snd (EndSession st) =
             st\<lparr>m_OutStream := \<lparr>open_file = None, buffer = [], fail = False\<rparr>,
                m_CurrentSession := None, heap := [],
                contents := (contents st)(path \<mapsto> old @ '']}'')\<rparr>))"
  by (auto simp: session_inv_def EndSession_def EndSessionNoLock_def WriteFooter_def footer_def
      delete_ProfilerSession_def stream_defs sink_def Let_def split: option.splits)

theorem EndSession_cases_witness:
  \<open>session_inv example_idle \<and> m_CurrentSession example_idle = None \<and>
   EndSession example_idle = (Returned, example_idle) \<and>
   session_inv example_open \<and> m_CurrentSession example_open \<noteq> None \<and>
   contents example_open ''out.json'' = Some ''{"otherData": {},"traceEvents":[{}'' \<and>
   EndSession example_open =
     (Returned,
      \<lparr>m_OutStream = \<lparr>open_file = None, buffer = [], fail = False\<rparr>,
       m_CurrentSession = None, heap = [],
       contents = [''out.json'' \<mapsto> ''{"otherData": {},"traceEvents":[{}]}''],
       writable = (\<lambda>path. path = ''out.json'')\<rparr>)\<close>
  using EndSession_cases [OF example_idle_inv] EndSession_cases [OF example_open_inv]
    example_idle_inv example_open_inv example_idle_session
  by (auto simp: example_open_eq prod_eq_iff header_def)

section \<open>\<^verbatim>\<open>BeginSession\<close> on a destination that cannot be opened\<close>

text \<open>
  C7. With no session open and a destination that cannot be opened for writing,
  \<^verbatim>\<open>BeginSession\<close> throws the \<^verbatim>\<open>ProfileException\<close> "Could not open file: " followed by
  the path. No session is created: \<^verbatim>\<open>m_CurrentSession\<close> stays null, nothing is allocated,
  no file is touched; only the stream records the failed \<^verbatim>\<open>open\<close>.
\<close>

theorem BeginSession_unopenable:
  "session_inv st \<Longrightarrow> m_CurrentSession st = None \<Longrightarrow> \<not> writable st filePath \<Longrightarrow>
     BeginSession name filePath st =
       (Threw (ProfileException (''Could not open file: '' @ filePath)),
        st\<lparr>m_OutStream := (m_OutStream st)\<lparr>fail := True\<rparr>\<rparr>)"
  by (auto simp: session_inv_def BeginSession_def stream_defs Let_def split: option.splits)

theorem BeginSession_unopenable_witness:
  "session_inv example_idle \<and> m_CurrentSession example_idle = None \<and>
   \<not> writable example_idle ''/no/such/dir/out.json'' \<and>
   BeginSession ''S'' ''/no/such/dir/out.json'' example_idle =
     (Threw (ProfileException ''Could not open file: /no/such/dir/out.json''),
      example_idle\<lparr>m_OutStream := \<lparr>open_file = None, buffer = [], fail = True\<rparr>\<rparr>)"
  using BeginSession_unopenable [OF example_idle_inv example_idle_session,
      of "''/no/such/dir/out.json''" "''S''"] example_idle_inv
  by (simp add: example_idle_def Profiler_ctor_def)

section \<open>Framing of the output\<close>

lemma BeginSession_opens:
  assumes "session_inv st" "m_CurrentSession st = None" "writable st filePath"
  shows "\<exists>st1. BeginSession name filePath st = (Returned, st1) \<and> open_on filePath header st1"
  using assms
  by (auto simp: open_on_def session_inv_def BeginSession_def WriteHeader_def
      new_ProfilerSession_def stream_defs sink_def Let_def split: option.splits)

lemma WriteProfile_appends:
  assumes "open_on path bytes st"
  shows "\<exists>st1. WriteProfile pf r st = (Returned, st1) \<and> open_on path (bytes @ record_json pf r) st1"
  using assms
  by (auto simp: open_on_def session_inv_def WriteProfile_def stream_defs sink_def Let_def
      split: option.splits)

lemma EndSession_closes:
  assumes "open_on path bytes st"
  shows "\<exists>st1. EndSession st = (Returned, st1) \<and> session_inv st1 \<and> m_CurrentSession st1 = None \<and>
           contents st1 path = Some (bytes @ footer)"
  using assms
  by (auto simp: open_on_def session_inv_def EndSession_def EndSessionNoLock_def WriteFooter_def
      delete_ProfilerSession_def stream_defs sink_def Let_def split: option.splits)

lemma exec_all_append:
  "exec_all pf (xs @ ys) st =
     (let (r1, st1) = exec_all pf xs st; (r2, st2) = exec_all pf ys st1 in (r1 @ r2, st2))"
  by (induction xs arbitrary: st) (simp_all add: split_beta)

lemma exec_all_writes:
  "open_on path bytes st \<Longrightarrow>
     \<exists>st1. exec_all pf (map Write rs) st = (replicate (length rs) Returned, st1) \<and>
           open_on path (bytes @ concat (map (record_json pf) rs)) st1"
proof (induction rs arbitrary: st bytes)
  case Nil
  then show ?case by simp
next
  case (Cons r rs)
  from WriteProfile_appends [OF Cons.prems] obtain st1 where
    w: "WriteProfile pf r st = (Returned, st1)" and o: "open_on path (bytes @ record_json pf r) st1"
    by blast
  from Cons.IH [OF o] obtain st2 where
    "exec_all pf (map Write rs) st1 = (replicate (length rs) Returned, st2)"
    "open_on path ((bytes @ record_json pf r) @ concat (map (record_json pf) rs)) st2"
    by blast
  with w show ?case by simp
qed

lemma example_idle_writable: "writable example_idle ''out.json''"
  by (simp add: example_idle_def Profiler_ctor_def)


text \<open>
  C4, as the claim states it, fails: the file is not a document of the format
  description. After \<^verbatim>\<open>BeginSession\<close>, one \<^verbatim>\<open>WriteProfile\<close> of 5000 microseconds and
  \<^verbatim>\<open>EndSession\<close> the record in the file has \<^verbatim>\<open>"dur":5000\<close>, where the description has
  \<^verbatim>\<open>"dur":5000.000\<close>, with or without line breaks between the parts.
\<close>

theorem session_document_counterexample:
  \<open>contents (run example_platform [Begin ''S'' ''out.json'', Write example_result, End]
      example_idle) ''out.json'' =
     Some ''{"otherData": {},"traceEvents":[{},{"cat":"function","dur":5000,"name":"work","ph":"X","pid":0,"tid":7,"ts":1.500}]}'' \<and>
   document_sec6 [] example_platform [example_result] =
     ''{"otherData": {},"traceEvents":[{},{"cat":"function","dur":5000.000,"name":"work","ph":"X","pid":0,"tid":7,"ts":1.500}]}'' \<and>
   contents (run example_platform [Begin ''S'' ''out.json'', Write example_result, End]
      example_idle) ''out.json'' \<noteq>
     Some (document_sec6 [] example_platform [example_result]) \<and>
   contents (run example_platform [Begin ''S'' ''out.json'', Write example_result, End]
      example_idle) ''out.json'' \<noteq>
     Some (document_sec6 [CHR 0x0A] example_platform [example_result])\<close>
proof -
  have r: "run example_platform [Begin ''S'' ''out.json'', Write example_result, End] example_idle =
           snd (EndSession (snd (WriteProfile example_platform example_result example_open)))"
    by (simp add: run_def split_beta example_open_def)
  have c: \<open>contents (run example_platform [Begin ''S'' ''out.json'', Write example_result, End]
      example_idle) ''out.json'' =
     Some ''{"otherData": {},"traceEvents":[{},{"cat":"function","dur":5000,"name":"work","ph":"X","pid":0,"tid":7,"ts":1.500}]}''\<close>
    unfolding r
    by (simp add: example_open_eq WriteProfile_def EndSession_def EndSessionNoLock_def
        WriteFooter_def delete_ProfilerSession_def stream_defs record_json_example header_def
        footer_def)
  have d: \<open>record_json_fixed3_dur example_platform example_result =
     '',{"cat":"function","dur":5000.000,"name":"work","ph":"X","pid":0,"tid":7,"ts":1.500}''\<close>
    by (simp add: record_json_fixed3_dur_def fixed3_of_int_def example_platform_def
        example_result_def example_numerals show_fixed_examples)
  show ?thesis
    unfolding c by (simp add: document_sec6_def d)
qed

text \<open>
  C4, amended. From a state with no session, with a destination that can be opened,
  \<^verbatim>\<open>BeginSession\<close>, then \<^verbatim>\<open>WriteProfile\<close> for each of the results \<open>rs\<close> in turn, then
  \<^verbatim>\<open>EndSession\<close>: every call returns, no session is left, and the file holds exactly the
  header, then the records of \<open>rs\<close> as \<^verbatim>\<open>WriteProfile\<close> serializes them, in the order of
  the calls, each starting with its comma, then the footer, with nothing between them.
\<close>

theorem session_output:
  assumes "session_inv st" "m_CurrentSession st = None" "writable st filePath"
  shows \<open>\<exists>st1. exec_all pf (Begin name filePath # map Write rs @ [End]) st =
                 (replicate (length rs + 2) Returned, st1) \<and>
               contents st1 filePath =
                 Some (''{"otherData": {},"traceEvents":[{}'' @
                       concat (map (record_json pf) rs) @ '']}'') \<and>
               m_CurrentSession st1 = None\<close>
proof -
  from BeginSession_opens [OF assms] obtain sa where
    a: "BeginSession name filePath st = (Returned, sa)" and oa: "open_on filePath header sa"
    by blast
  from exec_all_writes [OF oa] obtain sb where
    b: "exec_all pf (map Write rs) sa = (replicate (length rs) Returned, sb)" and
    ob: "open_on filePath (header @ concat (map (record_json pf) rs)) sb"
    by blast
  from EndSession_closes [OF ob] obtain sc where
    c: "EndSession sb = (Returned, sc)" and
    cc: "contents sc filePath = Some ((header @ concat (map (record_json pf) rs)) @ footer)" and
    ci: "m_CurrentSession sc = None"
    by blast
  have "exec_all pf (Begin name filePath # map Write rs @ [End]) st =
          (replicate (length rs + 2) Returned, sc)"
    using a b c by (simp add: exec_all_append replicate_append_same)
  with cc ci show ?thesis by (simp add: header_def footer_def)
qed

theorem session_output_witness:
  \<open>session_inv example_idle \<and> m_CurrentSession example_idle = None \<and>
   writable example_idle ''out.json'' \<and>
   (\<exists>st1. exec_all example_platform
            (Begin ''S'' ''out.json'' # map Write [example_result, example_result2] @ [End])
            example_idle = ([Returned, Returned, Returned, Returned], st1) \<and>
          contents st1 ''out.json'' =
            Some (''{"otherData": {},"traceEvents":[{}'' @
                  '',{"cat":"function","dur":5000,"name":"work","ph":"X","pid":0,"tid":7,"ts":1.500}'' @
                  '',{"cat":"function","dur":12,"name":"idle","ph":"X","pid":0,"tid":8,"ts":5003.250}'' @
                  '']}''))\<close>
  using session_output [OF example_idle_inv example_idle_session example_idle_writable,
      of example_platform "''S''" "[example_result, example_result2]"]
    example_idle_inv example_idle_session example_idle_writable
  by (auto simp: record_json_example record_json_example2 numeral_2_eq_2)

section \<open>\<^verbatim>\<open>ProfilerScope\<close>: the elapsed time\<close>

lemma sdiv_1000_eq: "(k::int) sdiv 1000 = (if 0 \<le> k then k div 1000 else - ((- k) div 1000))"
  by (simp add: signed_divide_int_def sgn_if)

lemma sdiv_1000_mono: "(a::int) \<le> b \<Longrightarrow> a sdiv 1000 \<le> b sdiv 1000"
proof -
  assume ab: "a \<le> b"
  consider "0 \<le> a" | "a < 0" "0 \<le> b" | "b < 0" by linarith
  then show ?thesis
  proof cases
    case 1
    with ab show ?thesis by (simp add: sdiv_1000_eq zdiv_mono1)
  next
    case 2
    then have "0 \<le> (- a) div 1000" "0 \<le> b div 1000" by simp_all
    with 2 show ?thesis by (simp add: sdiv_1000_eq)
  next
    case 3
    with ab have "(- b) div 1000 \<le> (- a) div 1000" by (intro zdiv_mono1) simp_all
    with 3 ab show ?thesis by (simp add: sdiv_1000_eq)
  qed
qed

lemma sdiv_1000_bounds:
  assumes "- (2 ^ 63) \<le> (k::int)" "k < 2 ^ 63"
  shows "- 9223372036854775 \<le> k sdiv 1000" "k sdiv 1000 \<le> 9223372036854775"
  using assms by (simp_all add: sdiv_1000_eq) linarith+

lemma sint64_bounds: "- (2 ^ 63) \<le> sint (w :: 64 word)" "sint (w :: 64 word) < 2 ^ 63"
  using sint_ge [of w] sint_lt [of w] by simp_all

lemma sint_time_point_cast_us: "sint (time_point_cast_us t) = sint t sdiv 1000"
proof -
  have "- 9223372036854775 \<le> sint t sdiv 1000" "sint t sdiv 1000 \<le> 9223372036854775"
    using sdiv_1000_bounds [OF sint64_bounds] by simp_all
  then show ?thesis
    unfolding time_point_cast_us_def
    by (simp add: sint_sbintrunc' signed_take_bit_int_eq_self)
qed

text \<open>The subtraction of the two microsecond counts never wraps around.\<close>

lemma sint_elapsed:
  "sint (time_point_cast_us e - time_point_cast_us s) = sint e sdiv 1000 - sint s sdiv 1000"
proof -
  have "- 9223372036854775 \<le> sint e sdiv 1000" "sint e sdiv 1000 \<le> 9223372036854775"
       "- 9223372036854775 \<le> sint s sdiv 1000" "sint s sdiv 1000 \<le> 9223372036854775"
    using sdiv_1000_bounds [OF sint64_bounds] by simp_all
  then show ?thesis
    by (simp add: sint_word_diff sint_time_point_cast_us signed_take_bit_int_eq_self)
qed

text \<open>
  C8. \<^verbatim>\<open>Stop\<close> hands \<^verbatim>\<open>WriteProfile\<close> the result it builds, and when the clock reading
  taken in \<^verbatim>\<open>Stop\<close> is not earlier than the one taken by the constructor, the \<^verbatim>\<open>Elapsed\<close>
  of that result is not negative; equal readings give 0.
\<close>

theorem Stop_elapsed_nonneg:
  "sint (m_Start scope) \<le> sint endTime \<Longrightarrow>
     Stop pf scope endTime tid st = WriteProfile pf (Stop_result pf scope endTime tid) st \<and>
     0 \<le> sint (Elapsed (Stop_result pf scope endTime tid)) \<and>
     (m_Start scope = endTime \<longrightarrow> Elapsed (Stop_result pf scope endTime tid) = 0)"
  using sdiv_1000_mono [of "sint (m_Start scope)" "sint endTime"]
  by (simp add: Stop_def Stop_result_def sint_elapsed)

theorem Stop_elapsed_nonneg_witness:
  "sint (m_Start (ProfilerScope_ctor ''work'' 1500)) \<le> sint (1500 :: 64 word) \<and>
   Elapsed (Stop_result example_platform (ProfilerScope_ctor ''work'' 1500) 1500 (7::nat)) = 0 \<and>
   sint (m_Start (ProfilerScope_ctor ''work'' (- 1500))) \<le> sint (5001999 :: 64 word) \<and>
   0 \<le> sint (Elapsed (Stop_result example_platform (ProfilerScope_ctor ''work'' (- 1500)) 5001999 (7::nat)))"
  using Stop_elapsed_nonneg [of "ProfilerScope_ctor ''work'' 1500" 1500 example_platform 7]
    Stop_elapsed_nonneg [of "ProfilerScope_ctor ''work'' (- 1500)" 5001999 example_platform 7]
  by (simp add: ProfilerScope_ctor_def)

end
